theory Spec2Isabelle
  imports Main "HOL-Library.Word"
begin

unbundle bit_operations_syntax

section \<open>JavaScript values\<close>

text \<open>
  The relay (\<^verbatim>\<open>midi.js\<close>) works on untyped JavaScript values: fields of requests and
  triggers arrive as JSON and may be numbers, strings, \<^verbatim>\<open>undefined\<close> or \<^verbatim>\<open>null\<close>.
  The model keeps them untyped. Numbers are the integers (MIDI data is integral) plus
  \<^verbatim>\<open>NaN\<close>; non-integral numbers and infinities are outside the model, and so are nested
  objects as field values. An integer stands for the JavaScript number of that value, so
  arithmetic is that of the code as long as it stays within the safe integers (below 2^53
  in magnitude), where doubles are exact. Strings are ASCII strings. \<open>Arr\<close> is an array of numbers, as a received MIDI message is.
  \<open>Builtin name\<close> is the function or object that every object literal inherits from
  \<^verbatim>\<open>Object.prototype\<close> under the property \<open>name\<close>.
\<close>

datatype jsval =
  Undefined | Null | Bool bool | Num int | NaN | Str string | Arr "int list" | Builtin string

datatype js_error = TypeError

text \<open>An object is its list of properties; reading a property that is absent gives \<^verbatim>\<open>undefined\<close>.\<close>

type_synonym jsobj = "(string \<times> jsval) list"

definition get :: "jsobj \<Rightarrow> string \<Rightarrow> jsval" where
  "get obj k = (case map_of obj k of Some v \<Rightarrow> v | None \<Rightarrow> Undefined)"

text \<open>Truthiness (\<^verbatim>\<open>!v\<close>, \<^verbatim>\<open>a || b\<close>, \<^verbatim>\<open>a && b\<close>) and the nullish test of \<^verbatim>\<open>a ?? b\<close>.\<close>

fun truthy :: "jsval \<Rightarrow> bool" where
  "truthy Undefined = False"
| "truthy Null = False"
| "truthy (Bool b) = b"
| "truthy (Num n) = (n \<noteq> 0)"
| "truthy NaN = False"
| "truthy (Str s) = (s \<noteq> [])"
| "truthy (Arr xs) = True"
| "truthy (Builtin f) = True"

definition or_else :: "jsval \<Rightarrow> jsval \<Rightarrow> jsval" where
  "or_else a b = (if truthy a then a else b)"

definition nullish :: "jsval \<Rightarrow> bool" where
  "nullish v = (v = Undefined \<or> v = Null)"

definition nullish_or :: "jsval \<Rightarrow> jsval \<Rightarrow> jsval" where
  "nullish_or a b = (if nullish a then b else a)"

text \<open>
  Strict equality \<^verbatim>\<open>===\<close>: same type and value, except that \<^verbatim>\<open>NaN\<close> equals nothing.
  The code compares with a literal or with the result of \<^verbatim>\<open>parseInt\<close> on one side, so that
  arrays, which JavaScript compares by identity, are never compared with each other.
\<close>

definition strict_eq :: "jsval \<Rightarrow> jsval \<Rightarrow> bool" where
  "strict_eq a b = (a = b \<and> a \<noteq> NaN)"

subsection \<open>Strings and numbers\<close>

definition lower_char :: "char \<Rightarrow> char" where
  "lower_char c = (let n = of_char c :: nat in if 65 \<le> n \<and> n \<le> 90 then char_of (n + 32) else c)"

definition is_ws :: "char \<Rightarrow> bool" where
  "is_ws c = (of_char c \<in> {9, 10, 11, 12, 13, 32 :: nat})"

definition trim :: "string \<Rightarrow> string" where
  "trim s = rev (dropWhile is_ws (rev (dropWhile is_ws s)))"

text \<open>\<^verbatim>\<open>s.toLowerCase()\<close>: a method of strings only; on any other value the call throws.\<close>

fun toLowerCase :: "jsval \<Rightarrow> js_error + string" where
  "toLowerCase (Str s) = Inr (map lower_char s)"
| "toLowerCase v = Inl TypeError"

text \<open>Decimal digits of a natural number, and \<^verbatim>\<open>String(v)\<close>.\<close>

fun dec_nat :: "nat \<Rightarrow> string" where
  "dec_nat n = (if n < 10 then [char_of (48 + n)] else dec_nat (n div 10) @ [char_of (48 + n mod 10)])"

declare dec_nat.simps [simp del]

definition dec_int :: "int \<Rightarrow> string" where
  "dec_int i = (if i < 0 then CHR ''-'' # dec_nat (nat (- i)) else dec_nat (nat i))"

text \<open>
  \<^verbatim>\<open>String(n)\<close> for a number: plain decimal below 10^21 in magnitude, exponent notation
  from there on (\<^verbatim>\<open>String(1e21)\<close> is \<^verbatim>\<open>'1e+21'\<close>). In exponent notation JavaScript prints
  the shortest digits that identify the double; the model prints the digits of the integer,
  which are the same when it has at most 15 significant digits.
\<close>

definition exp_nat :: "nat \<Rightarrow> string" where
  "exp_nat n =
     (let ds = dec_nat n;
          sig = rev (dropWhile (\<lambda>c. c = CHR ''0'') (rev ds))
      in take 1 sig @ (if length sig > 1 then ''.'' @ drop 1 sig else []) @ ''e+''
         @ dec_nat (length ds - 1))"

definition number_toString :: "int \<Rightarrow> string" where
  "number_toString i =
     (if i < 0 then ''-'' else [])
     @ (if nat \<bar>i\<bar> < 10 ^ 21 then dec_nat (nat \<bar>i\<bar>) else exp_nat (nat \<bar>i\<bar>))"

text \<open>\<^verbatim>\<open>xs.join(sep)\<close>\<close>

fun join :: "string \<Rightarrow> string list \<Rightarrow> string" where
  "join sep [] = []"
| "join sep [x] = x"
| "join sep (x # y # ys) = x @ sep @ join sep (y # ys)"

fun toString :: "jsval \<Rightarrow> string" where
  "toString Undefined = ''undefined''"
| "toString Null = ''null''"
| "toString (Bool b) = (if b then ''true'' else ''false'')"
| "toString (Num n) = number_toString n"
| "toString NaN = ''NaN''"
| "toString (Str s) = s"
| "toString (Arr xs) = join '','' (map number_toString xs)"
| "toString (Builtin f) =
     (if f = ''__proto__'' then ''[object Object]''
      else ''function '' @ (if f = ''constructor'' then ''Object'' else f) @ ''() { [native code] }'')"

text \<open>The value of a character as a digit (bases up to 36); the decimal digits.\<close>

definition digit_of :: "char \<Rightarrow> nat option" where
  "digit_of c =
     (let n = of_char c :: nat in
      if 48 \<le> n \<and> n \<le> 57 then Some (n - 48)
      else if 97 \<le> n \<and> n \<le> 122 then Some (n - 87)
      else if 65 \<le> n \<and> n \<le> 90 then Some (n - 55)
      else None)"

definition is_digit :: "nat \<Rightarrow> char \<Rightarrow> bool" where
  "is_digit r c = (case digit_of c of Some d \<Rightarrow> d < r | None \<Rightarrow> False)"

definition dchar :: "char \<Rightarrow> bool" where
  "dchar c = (48 \<le> (of_char c :: nat) \<and> (of_char c :: nat) \<le> 57)"

definition digits_value :: "nat \<Rightarrow> string \<Rightarrow> nat" where
  "digits_value r s = foldl (\<lambda>a c. a * r + the (digit_of c)) 0 s"

definition hex_prefix :: "string \<Rightarrow> bool" where
  "hex_prefix s = (take 2 s = ''0x'' \<or> take 2 s = ''0X'')"

text \<open>
  \<^verbatim>\<open>parseInt(v)\<close> and \<^verbatim>\<open>parseInt(v, 10)\<close>: the argument is converted to a string,
  leading white space and a sign are skipped, without a radix a prefix \<^verbatim>\<open>0x\<close> selects base
  16, and the longest prefix of digits is read; \<open>None\<close> is \<^verbatim>\<open>NaN\<close> (no digit).
\<close>

definition parseInt_string :: "bool \<Rightarrow> string \<Rightarrow> int option" where
  "parseInt_string radix10 s =
     (let s1 = dropWhile is_ws s;
          neg = (take 1 s1 = ''-'');
          s2 = (if take 1 s1 = ''-'' \<or> take 1 s1 = ''+'' then drop 1 s1 else s1);
          hex = (\<not> radix10 \<and> hex_prefix s2);
          r = (if hex then 16 else 10);
          s3 = (if hex then drop 2 s2 else s2);
          z = takeWhile (is_digit r) s3
      in if z = [] then None
         else Some (if neg then - int (digits_value r z) else int (digits_value r z)))"

definition parseInt :: "jsval \<Rightarrow> int option" where
  "parseInt v = parseInt_string False (toString v)"

definition parseInt10 :: "jsval \<Rightarrow> int option" where
  "parseInt10 v = parseInt_string True (toString v)"

definition js_num :: "int option \<Rightarrow> jsval" where
  "js_num r = (case r of Some n \<Rightarrow> Num n | None \<Rightarrow> NaN)"

text \<open>
  \<^verbatim>\<open>Number(v)\<close> as the operators apply it (\<open>None\<close> is \<^verbatim>\<open>NaN\<close>). A string converts as a
  whole, white space at both ends apart: empty is 0; a literal with prefix \<^verbatim>\<open>0x\<close>,
  \<^verbatim>\<open>0o\<close> or \<^verbatim>\<open>0b\<close> is read in its base; a decimal literal is an optional sign, digits
  with an optional point (at least one digit before or after it) and an optional exponent;
  any other string is \<^verbatim>\<open>NaN\<close>. A decimal literal whose value is not an integer, and
  \<^verbatim>\<open>Infinity\<close>, denote numbers outside the model; they read as \<open>None\<close> here.
\<close>

definition decimal_of_string :: "string \<Rightarrow> int option" where
  "decimal_of_string u =
     (let ip = takeWhile (is_digit 10) u;
          r1 = dropWhile (is_digit 10) u;
          dot = (take 1 r1 = ''.'');
          fp = (if dot then takeWhile (is_digit 10) (drop 1 r1) else []);
          r2 = (if dot then dropWhile (is_digit 10) (drop 1 r1) else r1);
          ex = (take 1 r2 = ''e'' \<or> take 1 r2 = ''E'');
          r3 = drop 1 r2;
          eneg = (take 1 r3 = ''-'');
          ed = (if take 1 r3 = ''-'' \<or> take 1 r3 = ''+'' then drop 1 r3 else r3);
          m = int (digits_value 10 (ip @ fp));
          e = (if ex then (if eneg then - int (digits_value 10 ed) else int (digits_value 10 ed))
               else 0) - int (length fp)
      in if (ip = [] \<and> fp = []) \<or> (r2 \<noteq> [] \<and> \<not> ex)
            \<or> (ex \<and> (ed = [] \<or> \<not> list_all (is_digit 10) ed)) then None
         else if e \<ge> 0 then Some (m * 10 ^ nat e)
         else if m mod 10 ^ nat (- e) = 0 then Some (m div 10 ^ nat (- e))
         else None)"

definition number_of_string :: "string \<Rightarrow> int option" where
  "number_of_string s =
     (let t = trim s;
          neg = (take 1 t = ''-'');
          u = (if take 1 t = ''-'' \<or> take 1 t = ''+'' then drop 1 t else t);
          p = take 2 t;
          r = (if p = ''0x'' \<or> p = ''0X'' then 16 else if p = ''0o'' \<or> p = ''0O'' then 8
               else if p = ''0b'' \<or> p = ''0B'' then 2 else 10)
      in if t = [] then Some 0
         else if r = 10 then
           (case decimal_of_string u of
              Some n \<Rightarrow> Some (if neg then - n else n)
            | None \<Rightarrow> None)
         else
           (if drop 2 t \<noteq> [] \<and> list_all (is_digit r) (drop 2 t)
            then Some (int (digits_value r (drop 2 t))) else None))"

fun toNumber :: "jsval \<Rightarrow> int option" where
  "toNumber Undefined = None"
| "toNumber Null = Some 0"
| "toNumber (Bool b) = Some (if b then 1 else 0)"
| "toNumber (Num n) = Some n"
| "toNumber NaN = None"
| "toNumber (Str s) = number_of_string s"
| "toNumber (Arr xs) = number_of_string (join '','' (map number_toString xs))"
| "toNumber (Builtin f) = None"

text \<open>\<^verbatim>\<open>ToInt32\<close>, the operand conversion of the bitwise operators, and the operators.\<close>

definition toInt32 :: "jsval \<Rightarrow> int" where
  "toInt32 v = (case toNumber v of Some n \<Rightarrow> signed_take_bit 31 n | None \<Rightarrow> 0)"

definition js_and :: "jsval \<Rightarrow> jsval \<Rightarrow> jsval" where
  "js_and a b = Num (toInt32 a AND toInt32 b)"

definition js_or :: "jsval \<Rightarrow> jsval \<Rightarrow> jsval" where
  "js_or a b = Num (toInt32 a OR toInt32 b)"

definition js_shl :: "jsval \<Rightarrow> jsval \<Rightarrow> jsval" where
  "js_shl a b = Num (signed_take_bit 31 (push_bit (nat (toInt32 b mod 32)) (toInt32 a)))"

definition js_shr :: "jsval \<Rightarrow> jsval \<Rightarrow> jsval" where
  "js_shr a b = Num (drop_bit (nat (toInt32 b mod 32)) (toInt32 a))"

text \<open>
  \<^verbatim>\<open>a + b\<close>: concatenation when an operand is (or converts to) a string, else addition
  (of doubles in the code: exact while the operands and the sum are safe integers).
\<close>

definition is_stringy :: "jsval \<Rightarrow> bool" where
  "is_stringy v = (case v of Str s \<Rightarrow> True | Arr xs \<Rightarrow> True | Builtin f \<Rightarrow> True | _ \<Rightarrow> False)"

definition js_add :: "jsval \<Rightarrow> jsval \<Rightarrow> jsval" where
  "js_add a b =
     (if is_stringy a \<or> is_stringy b then Str (toString a @ toString b)
      else case (toNumber a, toNumber b) of (Some x, Some y) \<Rightarrow> Num (x + y) | _ \<Rightarrow> NaN)"

text \<open>\<^verbatim>\<open>a > b\<close> on a value and a number: false when the value is not a number.\<close>

definition js_gt :: "jsval \<Rightarrow> int \<Rightarrow> bool" where
  "js_gt a n = (case toNumber a of Some x \<Rightarrow> x > n | None \<Rightarrow> False)"

text \<open>
  Reading a property of an object literal that serves as a table: a key the literal does
  not define finds what \<^verbatim>\<open>Object.prototype\<close> defines under that name, if anything.
\<close>

definition Object_prototype :: "string list" where
  "Object_prototype =
     [''constructor'', ''hasOwnProperty'', ''isPrototypeOf'', ''propertyIsEnumerable'',
      ''toLocaleString'', ''toString'', ''valueOf'', ''__proto__'',
      ''__defineGetter__'', ''__defineSetter__'', ''__lookupGetter__'', ''__lookupSetter__'']"

datatype 'a property = Own 'a | Inherited string | Absent

definition lookup :: "(string \<times> 'a) list \<Rightarrow> string \<Rightarrow> 'a property" where
  "lookup tab key =
     (case map_of tab key of Some v \<Rightarrow> Own v
      | None \<Rightarrow> if key \<in> set Object_prototype then Inherited key else Absent)"

text \<open>\<^verbatim>\<open>tab[k]\<close> for a table of numbers: the key is converted to a string.\<close>

definition table_get :: "(string \<times> int) list \<Rightarrow> jsval \<Rightarrow> jsval" where
  "table_get tab k =
     (case lookup tab (toString k) of Own n \<Rightarrow> Num n | Inherited f \<Rightarrow> Builtin f | Absent \<Rightarrow> Undefined)"

section \<open>MIDI sending\<close>

subsection \<open>MIDI Show Control\<close>

text \<open>
  \<^verbatim>\<open>parseStringDeviceId(deviceId)\<close>: \<^verbatim>\<open>deviceId.startsWith\<close> exists on strings only, so
  the call throws on every other value.
\<close>

definition parseStringDeviceId :: "jsval \<Rightarrow> js_error + jsval" where
  "parseStringDeviceId deviceId =
     (if strict_eq deviceId (Str ''all'') then Inr (Num 0x7f)
      else case deviceId of
        Str s \<Rightarrow>
          (if take 1 s = ''g'' then
             (case parseInt (Str (drop 1 s)) of
                Some grp \<Rightarrow>
                  if grp \<ge> 1 \<and> grp \<le> 15 then Inr (Num (0x70 + (grp - 1)))
                  else Inr (Num 0x7f)
              | None \<Rightarrow> Inr (Num 0x7f))
           else Inr (Num 0x7f))
      | _ \<Rightarrow> Inl TypeError)"

definition parseIntegerDeviceId :: "int \<Rightarrow> int" where
  "parseIntegerDeviceId deviceId = (if deviceId \<ge> 0 \<and> deviceId \<le> 111 then deviceId else 0x7f)"

text \<open>\<^verbatim>\<open>str.split('').map((c) => c.charCodeAt(0))\<close>: \<^verbatim>\<open>split\<close> exists on strings only.\<close>

fun stringToMSCData :: "jsval \<Rightarrow> js_error + jsval list" where
  "stringToMSCData (Str s) = Inr (map (\<lambda>c. Num (of_char c)) s)"
| "stringToMSCData v = Inl TypeError"

definition formatMap :: "(string \<times> int) list" where
  "formatMap =
     [(''lighting.general'', 0x01), (''sound.general'', 0x10), (''machinery.general'', 0x20),
      (''video.general'', 0x30), (''projection.general'', 0x40),
      (''processcontrol.general'', 0x50), (''pyro.general'', 0x60)]"

definition commandMap :: "(string \<times> int) list" where
  "commandMap =
     [(''go'', 0x01), (''stop'', 0x02), (''resume'', 0x03), (''timedgo'', 0x04), (''load'', 0x05),
      (''set'', 0x06), (''fire'', 0x07), (''alloff'', 0x08), (''restore'', 0x09),
      (''reset'', 0x0a), (''gooff'', 0x0b), (''gojam'', 0x10)]"

text \<open>
  The device id is resolved inside \<^verbatim>\<open>try\<close>: when that throws, \<^verbatim>\<open>BuildMSC\<close> warns and
  returns the empty message. \<^verbatim>\<open>stringToMSCData\<close> is called outside it, so its exception
  leaves \<^verbatim>\<open>BuildMSC\<close>.
\<close>

definition deviceId_hex :: "jsval \<Rightarrow> js_error + jsval" where
  "deviceId_hex deviceId =
     (case parseInt deviceId of
        None \<Rightarrow> parseStringDeviceId deviceId
      | Some n \<Rightarrow> Inr (Num (parseIntegerDeviceId n)))"

definition BuildMSC ::
  "jsval \<Rightarrow> jsval \<Rightarrow> jsval \<Rightarrow> jsval \<Rightarrow> jsval \<Rightarrow> jsval \<Rightarrow> js_error + jsval list" where
  "BuildMSC deviceId commandFormat command cue cueList cuePath =
     (case deviceId_hex deviceId of
        Inl err \<Rightarrow> Inr []
      | Inr dev \<Rightarrow>
          (let commandFormat_hex = or_else (table_get formatMap commandFormat) (Num 0x7f);
               command_hex = or_else (table_get commandMap command) (Num 0x01);
               msg = [Num 0xf0, Num 0x7f, dev, Num 0x02, commandFormat_hex, command_hex]
           in case (if truthy cue then stringToMSCData cue else Inr []) of
                Inl e \<Rightarrow> Inl e
              | Inr cueBytes \<Rightarrow>
             (case (if truthy cueList then stringToMSCData cueList else Inr []) of
                Inl e \<Rightarrow> Inl e
              | Inr listBytes \<Rightarrow>
             (case (if truthy cuePath then stringToMSCData cuePath else Inr []) of
                Inl e \<Rightarrow> Inl e
              | Inr pathBytes \<Rightarrow>
                  Inr (msg @ cueBytes
                       @ (if truthy cueList then Num 0x00 # listBytes else [])
                       @ (if truthy cuePath then Num 0x00 # pathBytes else [])
                       @ [Num 0xf7])))))"

subsection \<open>Encoding a request\<close>

text \<open>\<^verbatim>\<open>s.split(',')\<close> for a string.\<close>

fun split_comma :: "string \<Rightarrow> string list" where
  "split_comma [] = [[]]"
| "split_comma (c # cs) =
     (if c = CHR '','' then [] # split_comma cs
      else case split_comma cs of p # ps \<Rightarrow> (c # p) # ps | [] \<Rightarrow> [[c]])"

text \<open>
  The message that \<^verbatim>\<open>sendMIDI(midiObj, callback)\<close> builds in its \<^verbatim>\<open>switch\<close>, with the
  result it reports to the callback: the message handed to the output port,
  \<^verbatim>\<open>invalid-midi-command\<close> for a command of no case, or \<^verbatim>\<open>error\<close> when building throws
  (the \<^verbatim>\<open>catch\<close> of \<^verbatim>\<open>sendMIDI\<close>). Opening the output port and the transport's
  \<^verbatim>\<open>send\<close>, which can fail as well, are not part of the model.
\<close>

datatype sendResult = midi_sent_successfully "jsval list" | invalid_midi_command | error_result js_error

definition sendMIDI :: "jsobj \<Rightarrow> sendResult" where
  "sendMIDI midiObj =
     (case toLowerCase (get midiObj ''midicommand'') of
        Inl e \<Rightarrow> error_result e
      | Inr c \<Rightarrow>
          if c = ''noteon'' then
            midi_sent_successfully
              [js_add (Num 0x90) (get midiObj ''channel''), get midiObj ''note'',
               or_else (get midiObj ''velocity'') (Num 127)]
          else if c = ''noteoff'' then
            midi_sent_successfully
              [js_add (Num 0x80) (get midiObj ''channel''), get midiObj ''note'',
               or_else (get midiObj ''velocity'') (Num 0)]
          else if c = ''cc'' then
            midi_sent_successfully
              [js_add (Num 0xb0) (get midiObj ''channel''), get midiObj ''controller'',
               get midiObj ''value'']
          else if c = ''pc'' then
            midi_sent_successfully [js_add (Num 0xc0) (get midiObj ''channel''), get midiObj ''value'']
          else if c = ''pressure'' then
            midi_sent_successfully [js_add (Num 0xd0) (get midiObj ''channel''), get midiObj ''value'']
          else if c = ''pitchbend'' then
            (let lsb = js_and (get midiObj ''value'') (Num 0x7f);
                 msb = js_and (js_shr (get midiObj ''value'') (Num 7)) (Num 0x7f)
             in midi_sent_successfully [js_add (Num 0xe0) (get midiObj ''channel''), lsb, msb])
          else if c = ''sysex'' then
            (case get midiObj ''message'' of
               Str s \<Rightarrow>
                 midi_sent_successfully (map (\<lambda>v. js_num (parseInt (Str (trim v)))) (split_comma s))
             | _ \<Rightarrow> error_result TypeError)
          else if c = ''msc'' then
            (case BuildMSC (get midiObj ''deviceid'') (get midiObj ''commandformat'')
                    (get midiObj ''command'') (get midiObj ''cue'') (get midiObj ''cuelist'')
                    (get midiObj ''cuepath'') of
               Inl e \<Rightarrow> error_result e
             | Inr message \<Rightarrow> midi_sent_successfully message)
          else invalid_midi_command)"

section \<open>MIDI receiving\<close>

text \<open>\<^verbatim>\<open>message[i]\<close> for a received message: \<^verbatim>\<open>undefined\<close> beyond its end.\<close>

definition at :: "int list \<Rightarrow> nat \<Rightarrow> jsval" where
  "at message i = (if i < length message then Num (message ! i) else Undefined)"

definition parseMSC :: "int list \<Rightarrow> jsobj" where
  "parseMSC message =
     [(''deviceid'', at message 2), (''commandformat'', at message 4),
      (''command'', at message 5), (''raw'', Arr message)]"

text \<open>
  The classification of \<^verbatim>\<open>receiveMIDI(portName, message)\<close>: nothing for an empty message,
  else the type and the data of the event. An event whose type is the empty string (a
  system message other than \<^verbatim>\<open>0xF0\<close>) or \<^verbatim>\<open>'unknown'\<close> is neither logged nor passed to
  the triggers.
\<close>

definition receiveMIDI :: "int list \<Rightarrow> (string \<times> jsobj) option" where
  "receiveMIDI message =
     (if message = [] then None
      else
        let statusByte = message ! 0;
            channel = js_and (Num statusByte) (Num 0x0f);
            command = toInt32 (Num statusByte) AND 0xf0;
            midiData = [(''channel'', channel), (''raw'', Arr message)]
        in Some
          (if command = 0x90 then
             (if js_gt (at message 2) 0 then ''noteon'' else ''noteoff'',
              midiData @ [(''note'', at message 1), (''velocity'', at message 2)])
           else if command = 0x80 then
             (''noteoff'', midiData @ [(''note'', at message 1), (''velocity'', at message 2)])
           else if command = 0xb0 then
             (''cc'', midiData @ [(''controller'', at message 1), (''value'', at message 2)])
           else if command = 0xc0 then
             (''pc'', midiData @ [(''value'', at message 1)])
           else if command = 0xd0 then
             (''pressure'', midiData @ [(''value'', at message 1)])
           else if command = 0xe0 then
             (''pitchbend'',
              midiData @ [(''value'', js_or (at message 1) (js_shl (at message 2) (Num 7)))])
           else if command = 0xf0 then
             (if statusByte = 0xf0 then
                (if length message \<ge> 5 \<and> strict_eq (at message 1) (Num 0x7f)
                      \<and> strict_eq (at message 3) (Num 0x02)
                 then (''msc'', parseMSC message)
                 else (''sysex'', midiData @ [(''message'', Arr message)]))
              else ([], midiData))
           else (''unknown'', midiData)))"

definition forwarded :: "string \<Rightarrow> bool" where
  "forwarded midiType = (midiType \<noteq> [] \<and> midiType \<noteq> ''unknown'')"

section \<open>Triggers\<close>

text \<open>
  \<^verbatim>\<open>matchesTrigger(trigger, portName, midiType, midiData)\<close>; it throws when the trigger's
  \<^verbatim>\<open>midicommand\<close> is not a string.
\<close>

definition matchesTrigger :: "jsobj \<Rightarrow> string \<Rightarrow> string \<Rightarrow> jsobj \<Rightarrow> js_error + bool" where
  "matchesTrigger trigger portName midiType midiData =
     (case toLowerCase (get trigger ''midicommand'') of
        Inl e \<Rightarrow> Inl e
      | Inr c \<Rightarrow> Inr
          (if c \<noteq> midiType then False
           else if truthy (get trigger ''midiport'')
                   \<and> \<not> strict_eq (get trigger ''midiport'') (Str ''*'')
                   \<and> \<not> strict_eq (get trigger ''midiport'') (Str portName) then False
           else if \<not> strict_eq (get trigger ''channel'') Undefined
                   \<and> \<not> strict_eq (get trigger ''channel'') (Str ''*'')
                   \<and> \<not> strict_eq (js_num (parseInt (get trigger ''channel'')))
                                   (get midiData ''channel'') then False
           else if (midiType = ''noteon'' \<or> midiType = ''noteoff'')
                   \<and> \<not> strict_eq (get trigger ''note'') Undefined
                   \<and> \<not> strict_eq (get trigger ''note'') (Str ''*'')
                   \<and> \<not> strict_eq (js_num (parseInt (get trigger ''note'')))
                                   (get midiData ''note'') then False
           else if \<not> strict_eq (get trigger ''velocity'') Undefined
                   \<and> \<not> strict_eq (get trigger ''velocity'') (Str ''*'')
                   \<and> \<not> strict_eq (js_num (parseInt (get trigger ''velocity'')))
                                   (get midiData ''velocity'') then False
           else if midiType = ''cc''
                   \<and> \<not> strict_eq (get trigger ''controller'') Undefined
                   \<and> \<not> strict_eq (get trigger ''controller'') (Str ''*'')
                   \<and> \<not> strict_eq (js_num (parseInt (get trigger ''controller'')))
                                   (get midiData ''controller'') then False
           else if \<not> strict_eq (get trigger ''value'') Undefined
                   \<and> \<not> strict_eq (get trigger ''value'') (Str ''*'')
                   \<and> \<not> strict_eq (js_num (parseInt (get trigger ''value'')))
                                   (get midiData ''value'') then False
           else True))"

text \<open>
  What running a trigger does, as the list of its actions in order: lines on the console,
  a call of \<^verbatim>\<open>runMIDITrigger_HTTP\<close> with the trigger (the request it makes is not
  modelled), a call of \<^verbatim>\<open>sendMIDI\<close> with a request.
\<close>

datatype action =
  console_log jsval
| console_warn jsval
| HTTP_call jsobj
| MIDI_send jsobj

definition runMIDITrigger_MIDI :: "jsobj \<Rightarrow> action list" where
  "runMIDITrigger_MIDI trigger =
     (let midiObj =
        [(''midiport'', get trigger ''outputport''),
         (''midicommand'', or_else (get trigger ''outputcommand'') (get trigger ''midicommand'')),
         (''channel'', nullish_or (get trigger ''outputchannel'') (get trigger ''channel'')),
         (''note'', nullish_or (get trigger ''outputnote'') (get trigger ''note'')),
         (''velocity'', nullish_or (get trigger ''outputvelocity'') (get trigger ''velocity'')),
         (''controller'', nullish_or (get trigger ''outputcontroller'') (get trigger ''controller'')),
         (''value'', nullish_or (get trigger ''outputvalue'') (get trigger ''value''))]
      in [MIDI_send midiObj])"

definition executeTrigger :: "jsobj \<Rightarrow> jsobj \<Rightarrow> js_error + action list" where
  "executeTrigger trigger midiData =
     Inr (console_log (get trigger ''id'') #
          (if strict_eq (get trigger ''actiontype'') (Str ''http'') then [HTTP_call trigger]
           else if strict_eq (get trigger ''actiontype'') (Str ''midi'') then runMIDITrigger_MIDI trigger
           else [console_warn (get trigger ''actiontype'')]))"

section \<open>Validation\<close>

text \<open>\<^verbatim>\<open>MIDI_LIMITS\<close>: for each parameter its \<^verbatim>\<open>min\<close>, \<^verbatim>\<open>max\<close> and \<^verbatim>\<open>name\<close>.\<close>

definition MIDI_LIMITS :: "(string \<times> int \<times> int \<times> string) list" where
  "MIDI_LIMITS =
     [(''channel'', 0, 15, ''Channel''), (''note'', 0, 127, ''Note''),
      (''velocity'', 0, 127, ''Velocity''), (''value'', 0, 127, ''Value''),
      (''controller'', 0, 127, ''Controller''), (''program'', 0, 127, ''Program''),
      (''pitchbend'', 0, 16383, ''Pitch Bend'')]"

definition VALID_MIDI_COMMANDS :: "string list" where
  "VALID_MIDI_COMMANDS =
     [''noteon'', ''noteoff'', ''cc'', ''pc'', ''pressure'', ''pitchbend'', ''sysex'', ''msc'']"

text \<open>
  \<^verbatim>\<open>validateMIDIValue(paramName, value, allowWildcard)\<close> returns \<^verbatim>\<open>{valid: true, value}\<close>
  or \<^verbatim>\<open>{valid: false, error}\<close>. When \<^verbatim>\<open>paramName\<close> names something inherited from
  \<^verbatim>\<open>Object.prototype\<close>, \<^verbatim>\<open>limits\<close> is that function or object: its \<^verbatim>\<open>min\<close> and
  \<^verbatim>\<open>max\<close> are \<^verbatim>\<open>undefined\<close>, and no number is out of range.
\<close>

datatype fieldResult = FieldValid jsval | FieldInvalid string

definition validateMIDIValue :: "string \<Rightarrow> jsval \<Rightarrow> bool \<Rightarrow> fieldResult" where
  "validateMIDIValue paramName v allowWildcard =
     (if allowWildcard \<and> strict_eq v (Str ''*'') then FieldValid (Str ''*'')
      else case lookup MIDI_LIMITS paramName of
        Absent \<Rightarrow> FieldInvalid (''Unknown MIDI parameter: '' @ paramName)
      | Own (lo, hi, name) \<Rightarrow>
          (case parseInt10 v of
             None \<Rightarrow> FieldInvalid (name @ '' must be a number, got: '' @ toString v)
           | Some num \<Rightarrow>
               if num < lo \<or> num > hi
               then FieldInvalid (name @ '' must be '' @ dec_int lo @ ''-'' @ dec_int hi
                                  @ '', got: '' @ number_toString num)
               else FieldValid (Num num))
      | Inherited f \<Rightarrow>
          (case parseInt10 v of
             None \<Rightarrow>
               FieldInvalid
                 ((if f = ''__proto__'' then ''undefined'' else if f = ''constructor'' then ''Object'' else f)
                  @ '' must be a number, got: '' @ toString v)
           | Some num \<Rightarrow> FieldValid (Num num)))"

text \<open>The range check of a value: it reads as an integer, and the integer lies in the range.\<close>

definition in_range :: "int \<Rightarrow> int \<Rightarrow> jsval \<Rightarrow> bool" where
  "in_range lo hi v = (case parseInt10 v of Some n \<Rightarrow> lo \<le> n \<and> n \<le> hi | None \<Rightarrow> False)"

text \<open>\<^verbatim>\<open>if (!result.valid) errors.push(result.error)\<close>\<close>

definition push_error :: "fieldResult \<Rightarrow> string list" where
  "push_error r = (case r of FieldValid v \<Rightarrow> [] | FieldInvalid e \<Rightarrow> [e])"

text \<open>\<^verbatim>\<open>v === undefined || v === null || v === ''\<close>\<close>

definition missing :: "jsval \<Rightarrow> bool" where
  "missing v = (strict_eq v Undefined \<or> strict_eq v Null \<or> strict_eq v (Str []))"

text \<open>The result \<^verbatim>\<open>{valid: true}\<close> or \<^verbatim>\<open>{valid: false, errors}\<close>.\<close>

datatype validation = Valid | Invalid "string list"

definition finish :: "string list \<Rightarrow> validation" where
  "finish errors = (if length errors > 0 then Invalid errors else Valid)"

fun errors :: "validation \<Rightarrow> string list" where
  "errors Valid = []"
| "errors (Invalid es) = es"

text \<open>
  \<^verbatim>\<open>validateMIDIObject(midiObj)\<close>; \<open>None\<close> is a \<^verbatim>\<open>null\<close> or \<^verbatim>\<open>undefined\<close> argument. A
  \<^verbatim>\<open>midicommand\<close> that is truthy and not a string makes \<^verbatim>\<open>toLowerCase\<close> throw.
\<close>

definition validateMIDIObject :: "jsobj option \<Rightarrow> js_error + validation" where
  "validateMIDIObject arg =
     (case arg of
        None \<Rightarrow> Inr (Invalid [''MIDI object is required''])
      | Some midiObj \<Rightarrow>
          (case (if truthy (get midiObj ''midicommand'') then toLowerCase (get midiObj ''midicommand'')
                 else Inr []) of
             Inl e \<Rightarrow> Inl e
           | Inr command \<Rightarrow> Inr (finish (
               (if \<not> truthy (get midiObj ''midicommand'') then [''midicommand is required'']
                else if command \<notin> set VALID_MIDI_COMMANDS
                then [''Invalid midicommand: '' @ toString (get midiObj ''midicommand'')
                      @ ''. Valid commands: '' @ join '', '' VALID_MIDI_COMMANDS]
                else [])
             @ (if \<not> truthy (get midiObj ''midiport'') then [''midiport is required''] else [])
             @ (if command \<in> set [''noteon'', ''noteoff'', ''cc'', ''pc'', ''pressure'', ''pitchbend'']
                then (if missing (get midiObj ''channel'') then [''channel is required for '' @ command]
                      else push_error (validateMIDIValue ''channel'' (get midiObj ''channel'') False))
                else [])
             @ (if command \<in> set [''noteon'', ''noteoff'']
                then (if missing (get midiObj ''note'') then [''note is required for '' @ command]
                      else push_error (validateMIDIValue ''note'' (get midiObj ''note'') False))
                else [])
             @ (if command \<in> set [''noteon'', ''noteoff'']
                    \<and> \<not> strict_eq (get midiObj ''velocity'') Undefined
                then push_error (validateMIDIValue ''velocity'' (get midiObj ''velocity'') False)
                else [])
             @ (if command = ''cc''
                then (if missing (get midiObj ''controller'') then [''controller is required for cc'']
                      else push_error (validateMIDIValue ''controller'' (get midiObj ''controller'') False))
                else [])
             @ (if command \<in> set [''cc'', ''pc'', ''pressure'']
                then (if missing (get midiObj ''value'') then [''value is required for '' @ command]
                      else push_error (validateMIDIValue ''value'' (get midiObj ''value'') False))
                else [])
             @ (if command = ''pitchbend''
                then (if missing (get midiObj ''value'') then [''value is required for pitchbend'']
                      else push_error (validateMIDIValue ''pitchbend'' (get midiObj ''value'') False))
                else [])))))"

text \<open>\<^verbatim>\<open>validateTriggerObject(triggerObj)\<close>, in the same way.\<close>

definition validateTriggerObject :: "jsobj option \<Rightarrow> js_error + validation" where
  "validateTriggerObject arg =
     (case arg of
        None \<Rightarrow> Inr (Invalid [''Trigger object is required''])
      | Some triggerObj \<Rightarrow>
          (case (if truthy (get triggerObj ''midicommand'') then toLowerCase (get triggerObj ''midicommand'')
                 else Inr []) of
             Inl e \<Rightarrow> Inl e
           | Inr command \<Rightarrow> Inr (finish (
               (if \<not> truthy (get triggerObj ''midicommand'') then [''midicommand is required'']
                else if command \<notin> set VALID_MIDI_COMMANDS
                then [''Invalid midicommand: '' @ toString (get triggerObj ''midicommand'')]
                else [])
             @ (if command \<in> set [''noteon'', ''noteoff'', ''cc'', ''pc'', ''pressure'', ''pitchbend'']
                    \<and> \<not> strict_eq (get triggerObj ''channel'') Undefined
                    \<and> \<not> strict_eq (get triggerObj ''channel'') (Str ''*'')
                then push_error (validateMIDIValue ''channel'' (get triggerObj ''channel'') False)
                else [])
             @ (if command \<in> set [''noteon'', ''noteoff'']
                    \<and> \<not> strict_eq (get triggerObj ''note'') Undefined
                    \<and> \<not> strict_eq (get triggerObj ''note'') (Str ''*'')
                then push_error (validateMIDIValue ''note'' (get triggerObj ''note'') False)
                else [])
             @ (if \<not> truthy (get triggerObj ''actiontype'') then [''actiontype is required'']
                else if \<not> (strict_eq (get triggerObj ''actiontype'') (Str ''http'')
                           \<or> strict_eq (get triggerObj ''actiontype'') (Str ''midi''))
                then [''Invalid actiontype: '' @ toString (get triggerObj ''actiontype'')
                      @ ''. Valid types: http, midi'']
                else [])
             @ (if strict_eq (get triggerObj ''actiontype'') (Str ''http'')
                    \<and> \<not> truthy (get triggerObj ''url'')
                then [''url is required for http action''] else [])
             @ (if strict_eq (get triggerObj ''actiontype'') (Str ''midi'')
                    \<and> \<not> truthy (get triggerObj ''outputport'')
                then [''outputport is required for midi action''] else [])))))"

section \<open>Logging\<close>

text \<open>
  \<^verbatim>\<open>addToLog(direction, port, command, data)\<close> pushes an entry on
  \<^verbatim>\<open>global.MIDIRelaysLog\<close>, shifts the first entry out when the length exceeds 500, and
  hands the entry to \<^verbatim>\<open>global.sendLog\<close> when that is set. The time stamp is read from the
  clock, an argument here.
\<close>

record 'd logEntry =
  timestamp :: string
  direction :: string
  port :: jsval
  command :: jsval
  data :: 'd

record 'd relay =
  MIDIRelaysLog :: "'d logEntry list"
  sendLog :: bool
  published :: "'d logEntry list"

definition addToLog :: "string \<Rightarrow> string \<Rightarrow> jsval \<Rightarrow> jsval \<Rightarrow> 'd \<Rightarrow> 'd relay \<Rightarrow> 'd relay" where
  "addToLog now dir p c d st =
     (let logEntry = \<lparr>timestamp = now, direction = dir, port = p, command = c, data = d\<rparr>;
          pushed = MIDIRelaysLog st @ [logEntry]
      in st\<lparr>MIDIRelaysLog := (if length pushed > 500 then tl pushed else pushed),
            published := (if sendLog st then published st @ [logEntry] else published st)\<rparr>)"

text \<open>A sequence of appends, each with its time stamp and arguments, in order.\<close>

fun appends :: "'d logEntry list \<Rightarrow> 'd relay \<Rightarrow> 'd relay" where
  "appends [] st = st"
| "appends (e # es) st =
     appends es (addToLog (timestamp e) (direction e) (port e) (command e) (data e) st)"

section \<open>Auxiliary facts\<close>

lemma get_simps [simp]:
  "get [] k = Undefined"
  "get ((k', v) # obj) k = (if k = k' then v else get obj k)"
  by (simp_all add: get_def)

lemma strict_eq_simps [simp]:
  "strict_eq a (Str s) = (a = Str s)"
  "strict_eq a (Num n) = (a = Num n)"
  "strict_eq a Undefined = (a = Undefined)"
  "strict_eq a Null = (a = Null)"
  "strict_eq (Num n) b = (b = Num n)"
  "strict_eq NaN b = False"
  by (auto simp add: strict_eq_def)

subsection \<open>Printing an integer and reading it back\<close>

lemma dchar_char_of: "d < 10 \<Longrightarrow> dchar (char_of (48 + d :: nat))"
  by (simp add: dchar_def)

lemma dchar_digit: "dchar c \<Longrightarrow> is_digit 10 c"
  by (auto simp add: dchar_def is_digit_def digit_of_def Let_def)

lemma dchar_not_ws: "dchar c \<Longrightarrow> \<not> is_ws c"
  by (auto simp add: dchar_def is_ws_def)

lemma dchar_neq:
  "dchar c \<Longrightarrow> c \<noteq> CHR ''-'' \<and> c \<noteq> CHR ''+'' \<and> c \<noteq> CHR ''x'' \<and> c \<noteq> CHR ''X''"
  by (auto simp add: dchar_def)

lemma dec_nat_dchar: "\<forall>c \<in> set (dec_nat n). dchar c"
proof (induction n rule: dec_nat.induct)
  case (1 n)
  show ?case
  proof (cases "n < 10")
    case True
    then show ?thesis by (subst dec_nat.simps) (simp add: dchar_char_of)
  next
    case False
    have "n mod 10 < 10" by simp
    then have "dchar (char_of (48 + n mod 10))" by (rule dchar_char_of)
    with False 1 show ?thesis by (subst dec_nat.simps) simp
  qed
qed

lemma dec_nat_nonempty: "dec_nat n \<noteq> []"
  by (subst dec_nat.simps) simp

lemma digit_of_char_of: "d < 10 \<Longrightarrow> digit_of (char_of (48 + d :: nat)) = Some d"
  by (simp add: digit_of_def)

lemma digits_value_snoc: "digits_value r (s @ [c]) = digits_value r s * r + the (digit_of c)"
  by (simp add: digits_value_def)

lemma digits_value_dec_nat: "digits_value 10 (dec_nat n) = n"
proof (induction n rule: dec_nat.induct)
  case (1 n)
  show ?case
  proof (cases "n < 10")
    case True
    then show ?thesis
      by (subst dec_nat.simps) (simp add: digits_value_def digit_of_char_of)
  next
    case False
    have "digits_value 10 (dec_nat n)
            = digits_value 10 (dec_nat (n div 10) @ [char_of (48 + n mod 10)])"
      using False by (subst dec_nat.simps) simp
    also have "\<dots> = (n div 10) * 10 + n mod 10"
      using False 1 by (simp add: digits_value_snoc digit_of_char_of)
    finally show ?thesis by simp
  qed
qed

text \<open>A string of decimal digits parses to its value, with or without the radix argument.\<close>

lemma parseInt_string_digits:
  assumes "s \<noteq> []" and "\<forall>c \<in> set s. dchar c"
  shows "parseInt_string b s = Some (int (digits_value 10 s))"
    and "parseInt_string b (CHR ''-'' # s) = Some (- int (digits_value 10 s))"
proof -
  obtain c cs where s: "s = c # cs" using assms(1) by (cases s) auto
  have c: "dchar c" using assms(2) s by simp
  have all: "takeWhile (is_digit 10) s = s"
    using assms(2) by (simp add: dchar_digit)
  have nohex: "\<not> hex_prefix s"
  proof (cases cs)
    case Nil
    then show ?thesis by (simp add: hex_prefix_def s)
  next
    case (Cons d ds)
    then have "dchar d" using assms(2) s by simp
    then show ?thesis using Cons dchar_neq [of d] by (simp add: hex_prefix_def s)
  qed
  have ws: "dropWhile is_ws s = s"
    using c by (simp add: s dchar_not_ws)
  have sign: "c \<noteq> CHR ''-''" "c \<noteq> CHR ''+''" using dchar_neq [OF c] by simp_all
  show "parseInt_string b s = Some (int (digits_value 10 s))"
    unfolding parseInt_string_def ws Let_def
    using sign nohex assms(1) by (simp add: all) (simp add: s)
  have ws': "dropWhile is_ws (CHR ''-'' # s) = CHR ''-'' # s"
    by (simp add: is_ws_def)
  show "parseInt_string b (CHR ''-'' # s) = Some (- int (digits_value 10 s))"
    unfolding parseInt_string_def ws' Let_def
    using nohex assms(1) by (simp add: all)
qed

lemma parseInt_string_dec_int: "parseInt_string b (dec_int n) = Some n"
proof (cases "n < 0")
  case True
  then show ?thesis
    using parseInt_string_digits(2) [OF dec_nat_nonempty dec_nat_dchar, of b "nat (- n)"]
    by (simp add: dec_int_def digits_value_dec_nat)
next
  case False
  then show ?thesis
    using parseInt_string_digits(1) [OF dec_nat_nonempty dec_nat_dchar, of b "nat n"]
    by (simp add: dec_int_def digits_value_dec_nat)
qed

text \<open>Below 10^21 in magnitude a number prints in plain decimal, and reads back as itself.\<close>

lemma number_toString_dec_int:
  assumes "- (10 ^ 21) < n" and "n < 10 ^ 21"
  shows "number_toString n = dec_int n"
proof -
  have "nat \<bar>n\<bar> < nat (10 ^ 21)"
    using assms by linarith
  then have small: "nat \<bar>n\<bar> < 10 ^ 21"
    by (simp add: nat_power_eq)
  show ?thesis
  proof (cases "n < 0")
    case True
    then have "\<bar>n\<bar> = - n" by simp
    with True small show ?thesis by (simp add: number_toString_def dec_int_def)
  next
    case False
    then have "\<bar>n\<bar> = n" by simp
    with False small show ?thesis by (simp add: number_toString_def dec_int_def)
  qed
qed

lemma parseInt_Num [simp]:
  "- (10 ^ 21) < n \<Longrightarrow> n < 10 ^ 21 \<Longrightarrow> parseInt (Num n) = Some n"
  "- (10 ^ 21) < n \<Longrightarrow> n < 10 ^ 21 \<Longrightarrow> parseInt10 (Num n) = Some n"
  by (simp_all add: parseInt_def parseInt10_def number_toString_dec_int parseInt_string_dec_int)





section \<open>Encoding and decoding\<close>

text \<open>
  Claim C4. Encoding the request \<^verbatim>\<open>{midicommand:'noteon', channel:0, note:60, velocity:127}\<close>
  gives the bytes \<^verbatim>\<open>[0x90, 60, 127]\<close>, and decoding these bytes gives an event of type
  \<^verbatim>\<open>noteon\<close> with channel 0, note 60 and velocity 127.
\<close>

theorem noteon_round_trip:
  "sendMIDI [(''midiport'', p), (''midicommand'', Str ''noteon''), (''channel'', Num 0),
             (''note'', Num 60), (''velocity'', Num 127)]
     = midi_sent_successfully (map Num [0x90, 60, 127])
   \<and> receiveMIDI [0x90, 60, 127]
     = Some (''noteon'', [(''channel'', Num 0), (''raw'', Arr [0x90, 60, 127]),
                          (''note'', Num 60), (''velocity'', Num 127)])"
  by (simp add: sendMIDI_def receiveMIDI_def lower_char_def js_add_def is_stringy_def or_else_def
      js_and_def toInt32_def js_gt_def at_def)

theorem noteon_round_trip_witness:
  "sendMIDI [(''midiport'', Str ''Synth''), (''midicommand'', Str ''noteon''), (''channel'', Num 0),
             (''note'', Num 60), (''velocity'', Num 127)]
     = midi_sent_successfully [Num 0x90, Num 60, Num 127]
   \<and> receiveMIDI [0x90, 60, 127]
     = Some (''noteon'', [(''channel'', Num 0), (''raw'', Arr [0x90, 60, 127]),
                          (''note'', Num 60), (''velocity'', Num 127)])"
  using noteon_round_trip [of "Str ''Synth''"] by simp

text \<open>
  Claim C1 says that a note-on request with velocity 0 is sent with status \<^verbatim>\<open>0x90 + channel\<close>
  and decodes to \<^verbatim>\<open>noteoff\<close>. The encoder writes \<^verbatim>\<open>midiObj.velocity || 127\<close>, and 0 is
  falsy: the request \<^verbatim>\<open>{midicommand:'noteon', channel:0, note:60, velocity:0}\<close> is sent as
  \<^verbatim>\<open>[0x90, 60, 127]\<close>, at full velocity, and that message decodes to \<^verbatim>\<open>noteon\<close>.
\<close>

theorem noteon_velocity_0_sent_as_127:
  "sendMIDI [(''midiport'', p), (''midicommand'', Str ''noteon''), (''channel'', Num 0),
             (''note'', Num 60), (''velocity'', Num 0)]
     = midi_sent_successfully (map Num [0x90, 60, 127])
   \<and> receiveMIDI [0x90, 60, 127]
     = Some (''noteon'', [(''channel'', Num 0), (''raw'', Arr [0x90, 60, 127]),
                          (''note'', Num 60), (''velocity'', Num 127)])"
  by (simp add: sendMIDI_def receiveMIDI_def lower_char_def js_add_def is_stringy_def or_else_def
      js_and_def toInt32_def js_gt_def at_def)

text \<open>
  The same holds on every channel: with velocity 0 the note-on is sent at velocity 127 and
  decodes to \<^verbatim>\<open>noteon\<close>.
\<close>

lemma status_nibbles:
  assumes "0 \<le> c" and "c \<le> (15::int)"
  shows "toInt32 (Num (0x90 + c)) AND 0xf0 = 0x90"
    and "js_and (Num (0x90 + c)) (Num 0x0f) = Num c"
proof -
  from assms have "c \<in> {0, 1, 2, 3, 4, 5, 6, 7, 8, 9, 10, 11, 12, 13, 14, 15}"
    by simp presburger
  then show "toInt32 (Num (0x90 + c)) AND 0xf0 = 0x90"
    and "js_and (Num (0x90 + c)) (Num 0x0f) = Num c"
    by (auto simp add: toInt32_def js_and_def)
qed

lemma noteon_velocity_0_any_channel:
  assumes "0 \<le> c" and "c \<le> 15"
  shows "sendMIDI [(''midiport'', p), (''midicommand'', Str ''noteon''), (''channel'', Num c),
                   (''note'', Num n), (''velocity'', Num 0)]
           = midi_sent_successfully (map Num [0x90 + c, n, 127])
         \<and> receiveMIDI [0x90 + c, n, 127]
           = Some (''noteon'', [(''channel'', Num c), (''raw'', Arr [0x90 + c, n, 127]),
                                (''note'', Num n), (''velocity'', Num 127)])"
  using status_nibbles [OF assms]
  by (simp add: sendMIDI_def receiveMIDI_def lower_char_def js_add_def is_stringy_def or_else_def
      js_gt_def at_def)

text \<open>
  Claim C3, as amended. A received message that starts with \<^verbatim>\<open>0xF0\<close>, has at least five
  bytes and has \<^verbatim>\<open>0x7F\<close> as byte 1 and \<^verbatim>\<open>0x02\<close> as byte 3 is classified \<^verbatim>\<open>msc\<close>; the
  event carries byte 2 as \<^verbatim>\<open>deviceid\<close>, byte 4 as \<^verbatim>\<open>commandformat\<close> and, when the
  message has a sixth byte, byte 5 as \<^verbatim>\<open>command\<close>. A message that starts with \<^verbatim>\<open>0xF0\<close>
  and has fewer than five bytes stays \<^verbatim>\<open>sysex\<close>.
\<close>

theorem receiveMIDI_msc:
  "message \<noteq> [] \<and> message ! 0 = 0xf0 \<longrightarrow>
     (length message \<ge> 5 \<and> message ! 1 = 0x7f \<and> message ! 3 = 0x02 \<longrightarrow>
        (\<exists>midiData. receiveMIDI message = Some (''msc'', midiData)
           \<and> get midiData ''deviceid'' = Num (message ! 2)
           \<and> get midiData ''commandformat'' = Num (message ! 4)
           \<and> (length message \<ge> 6 \<longrightarrow> get midiData ''command'' = Num (message ! 5))))
   \<and> (length message < 5 \<longrightarrow> (\<exists>midiData. receiveMIDI message = Some (''sysex'', midiData)))"
  by (auto simp add: receiveMIDI_def toInt32_def parseMSC_def at_def Let_def)

theorem receiveMIDI_msc_witness:
  "[0xf0, 0x7f, 0x05, 0x02, 0x01, 0x01, 0x31, 0xf7] \<noteq> ([] :: int list)
   \<and> length [0xf0, 0x7f, 0x05, 0x02, 0x01, 0x01, 0x31, 0xf7 :: int] \<ge> 6
   \<and> (\<exists>midiData. receiveMIDI [0xf0, 0x7f, 0x05, 0x02, 0x01, 0x01, 0x31, 0xf7] = Some (''msc'', midiData)
         \<and> get midiData ''deviceid'' = Num 5
         \<and> get midiData ''commandformat'' = Num 1
         \<and> get midiData ''command'' = Num 1)"
  using receiveMIDI_msc [of "[0xf0, 0x7f, 0x05, 0x02, 0x01, 0x01, 0x31, 0xf7]"]
  by simp

text \<open>
  The claim as it was stated fails on the four bytes \<^verbatim>\<open>F0 7F 01 02\<close>: bytes 1 and 3 are as
  required, and the event stays \<^verbatim>\<open>sysex\<close>.
\<close>

theorem receiveMIDI_msc_counterexample:
  "[0xf0, 0x7f, 0x01, 0x02] ! 0 = (0xf0 :: int) \<and> [0xf0, 0x7f, 0x01, 0x02] ! 1 = (0x7f :: int)
   \<and> [0xf0, 0x7f, 0x01, 0x02] ! 3 = (0x02 :: int)
   \<and> receiveMIDI [0xf0, 0x7f, 0x01, 0x02]
      = Some (''sysex'', [(''channel'', Num 0), (''raw'', Arr [0xf0, 0x7f, 0x01, 0x02]),
                          (''message'', Arr [0xf0, 0x7f, 0x01, 0x02])])"
  by (simp add: receiveMIDI_def toInt32_def js_and_def at_def)

section \<open>MIDI Show Control\<close>







text \<open>
  Claim C7 says that every command-format name outside the format table gives the byte
  \<^verbatim>\<open>0x7F\<close> and every command name outside the command table gives \<^verbatim>\<open>0x01\<close>. The tables
  are object literals read with \<^verbatim>\<open>formatMap[commandFormat] || 0x7f\<close>: a name such as
  \<^verbatim>\<open>constructor\<close> or \<^verbatim>\<open>toString\<close> is in neither table, yet the lookup finds the function
  inherited from \<^verbatim>\<open>Object.prototype\<close>, which is truthy, and the message holds that function
  where the byte should be.
\<close>

theorem BuildMSC_inherited_name:
  "BuildMSC (Num 1) (Str ''constructor'') (Str ''toString'') Undefined Undefined Undefined
     = Inr [Num 0xf0, Num 0x7f, Num 1, Num 0x02, Builtin ''constructor'', Builtin ''toString'',
            Num 0xf7]"
  by (simp add: BuildMSC_def deviceId_hex_def parseIntegerDeviceId_def or_else_def table_get_def
      lookup_def formatMap_def commandMap_def Object_prototype_def)

text \<open>For names that nothing defines, the defaults are as the claim says.\<close>

lemma BuildMSC_unknown_names:
  assumes "deviceId_hex v = Inr d"
    and "lookup formatMap (toString f) = Absent"
    and "lookup commandMap (toString c) = Absent"
  shows "BuildMSC v f c Undefined Undefined Undefined
           = Inr [Num 0xf0, Num 0x7f, d, Num 0x02, Num 0x7f, Num 0x01, Num 0xf7]"
  using assms by (simp add: BuildMSC_def or_else_def table_get_def)

section \<open>Trigger matching and execution\<close>

text \<open>
  Claim C5. A trigger with \<^verbatim>\<open>midicommand: 'noteon'\<close>, \<^verbatim>\<open>channel: '*'\<close> and \<^verbatim>\<open>note: 60\<close>, and
  with no port, velocity or value criterion (as
  \<^verbatim>\<open>{midicommand:'noteon', channel:'*', note:60, actiontype:'http', url:...}\<close> is), matches a
  \<^verbatim>\<open>noteon\<close> event exactly when the note of the event is 60, whatever its channel and port.
\<close>

theorem matchesTrigger_wildcard_channel:
  assumes "get trigger ''midicommand'' = Str ''noteon''"
    and "get trigger ''channel'' = Str ''*''"
    and "get trigger ''note'' = Num 60"
    and "get trigger ''midiport'' = Undefined"
    and "get trigger ''velocity'' = Undefined"
    and "get trigger ''value'' = Undefined"
  shows "matchesTrigger trigger portName ''noteon'' midiData = Inr (get midiData ''note'' = Num 60)"
  using assms by (simp add: matchesTrigger_def lower_char_def js_num_def)

theorem matchesTrigger_wildcard_channel_witness:
  "matchesTrigger
     [(''midicommand'', Str ''noteon''), (''channel'', Str ''*''), (''note'', Num 60),
      (''actiontype'', Str ''http''), (''url'', Str ''http://localhost:5678/webhook'')]
     ''Keystation'' ''noteon''
     [(''channel'', Num 9), (''raw'', Arr [0x99, 60, 100]), (''note'', Num 60), (''velocity'', Num 100)]
     = Inr True
   \<and> matchesTrigger
     [(''midicommand'', Str ''noteon''), (''channel'', Str ''*''), (''note'', Num 60),
      (''actiontype'', Str ''http''), (''url'', Str ''http://localhost:5678/webhook'')]
     ''midi-relay-hub'' ''noteon''
     [(''channel'', Num 0), (''raw'', Arr [0x90, 61, 100]), (''note'', Num 61), (''velocity'', Num 100)]
     = Inr False"
  using matchesTrigger_wildcard_channel
      [of "[(''midicommand'', Str ''noteon''), (''channel'', Str ''*''), (''note'', Num 60),
            (''actiontype'', Str ''http''), (''url'', Str ''http://localhost:5678/webhook'')]"
          "''Keystation''"
          "[(''channel'', Num 9), (''raw'', Arr [0x99, 60, 100]), (''note'', Num 60),
            (''velocity'', Num 100)]"]
    matchesTrigger_wildcard_channel
      [of "[(''midicommand'', Str ''noteon''), (''channel'', Str ''*''), (''note'', Num 60),
            (''actiontype'', Str ''http''), (''url'', Str ''http://localhost:5678/webhook'')]"
          "''midi-relay-hub''"
          "[(''channel'', Num 0), (''raw'', Arr [0x90, 61, 100]), (''note'', Num 61),
            (''velocity'', Num 100)]"]
  by simp

text \<open>
  Claim C9. For a trigger whose \<^verbatim>\<open>actiontype\<close> is neither \<^verbatim>\<open>'http'\<close> nor \<^verbatim>\<open>'midi'\<close>,
  \<^verbatim>\<open>executeTrigger\<close> returns without an exception; after the line that announces the
  trigger it only writes a warning: it makes no HTTP call and sends no MIDI.
\<close>

theorem executeTrigger_unknown_actiontype:
  "get trigger ''actiontype'' \<noteq> Str ''http'' \<Longrightarrow> get trigger ''actiontype'' \<noteq> Str ''midi'' \<Longrightarrow>
   executeTrigger trigger midiData
     = Inr [console_log (get trigger ''id''), console_warn (get trigger ''actiontype'')]"
  by (simp add: executeTrigger_def)

theorem executeTrigger_unknown_actiontype_witness:
  "get [(''id'', Str ''trigger-1a2b3c4d''), (''midicommand'', Str ''noteon''), (''actiontype'', Str ''ftp'')]
       ''actiontype'' \<noteq> Str ''http''
   \<and> get [(''id'', Str ''trigger-1a2b3c4d''), (''midicommand'', Str ''noteon''), (''actiontype'', Str ''ftp'')]
       ''actiontype'' \<noteq> Str ''midi''
   \<and> executeTrigger
        [(''id'', Str ''trigger-1a2b3c4d''), (''midicommand'', Str ''noteon''), (''actiontype'', Str ''ftp'')]
        [(''channel'', Num 0), (''raw'', Arr [0x90, 60, 127]), (''note'', Num 60), (''velocity'', Num 127)]
     = Inr [console_log (Str ''trigger-1a2b3c4d''), console_warn (Str ''ftp'')]"
  using executeTrigger_unknown_actiontype
    [of "[(''id'', Str ''trigger-1a2b3c4d''), (''midicommand'', Str ''noteon''), (''actiontype'', Str ''ftp'')]"
        "[(''channel'', Num 0), (''raw'', Arr [0x90, 60, 127]), (''note'', Num 60), (''velocity'', Num 127)]"]
  by simp

text \<open>
  Claim C10. For a trigger with \<^verbatim>\<open>actiontype: 'midi'\<close>, \<^verbatim>\<open>executeTrigger\<close> sends one
  request, which is the same for every matched event. Its port is the trigger's
  \<^verbatim>\<open>outputport\<close>; each of channel, note, velocity, controller and value is the trigger's
  output field, or the trigger's own match criterion when the output field is
  \<^verbatim>\<open>undefined\<close> or \<^verbatim>\<open>null\<close>; its command is \<^verbatim>\<open>outputcommand\<close>, or the trigger's
  \<^verbatim>\<open>midicommand\<close> when that is falsy. So a criterion \<^verbatim>\<open>'*'\<close> goes into the request as it is.
\<close>

theorem runMIDITrigger_MIDI_fallback:
  "get trigger ''actiontype'' = Str ''midi'' \<Longrightarrow>
   \<exists>midiObj.
     executeTrigger trigger midiData = Inr [console_log (get trigger ''id''), MIDI_send midiObj]
   \<and> executeTrigger trigger midiData' = executeTrigger trigger midiData
   \<and> get midiObj ''midiport'' = get trigger ''outputport''
   \<and> get midiObj ''midicommand'' =
       (if truthy (get trigger ''outputcommand'') then get trigger ''outputcommand''
        else get trigger ''midicommand'')
   \<and> get midiObj ''channel'' =
       (if get trigger ''outputchannel'' = Undefined \<or> get trigger ''outputchannel'' = Null
        then get trigger ''channel'' else get trigger ''outputchannel'')
   \<and> get midiObj ''note'' =
       (if get trigger ''outputnote'' = Undefined \<or> get trigger ''outputnote'' = Null
        then get trigger ''note'' else get trigger ''outputnote'')
   \<and> get midiObj ''velocity'' =
       (if get trigger ''outputvelocity'' = Undefined \<or> get trigger ''outputvelocity'' = Null
        then get trigger ''velocity'' else get trigger ''outputvelocity'')
   \<and> get midiObj ''controller'' =
       (if get trigger ''outputcontroller'' = Undefined \<or> get trigger ''outputcontroller'' = Null
        then get trigger ''controller'' else get trigger ''outputcontroller'')
   \<and> get midiObj ''value'' =
       (if get trigger ''outputvalue'' = Undefined \<or> get trigger ''outputvalue'' = Null
        then get trigger ''value'' else get trigger ''outputvalue'')"
  by (simp add: executeTrigger_def runMIDITrigger_MIDI_def nullish_or_def nullish_def or_else_def)

theorem runMIDITrigger_MIDI_fallback_witness:
  "get [(''id'', Str ''trigger-9f8e7d6c''), (''midicommand'', Str ''noteon''), (''channel'', Str ''*''),
        (''note'', Num 60), (''actiontype'', Str ''midi''), (''outputport'', Str ''Synth''),
        (''outputnote'', Num 0)] ''actiontype'' = Str ''midi''
   \<and> (\<exists>midiObj.
        executeTrigger
          [(''id'', Str ''trigger-9f8e7d6c''), (''midicommand'', Str ''noteon''), (''channel'', Str ''*''),
           (''note'', Num 60), (''actiontype'', Str ''midi''), (''outputport'', Str ''Synth''),
           (''outputnote'', Num 0)]
          [(''channel'', Num 3), (''raw'', Arr [0x93, 60, 100]), (''note'', Num 60), (''velocity'', Num 100)]
          = Inr [console_log (Str ''trigger-9f8e7d6c''), MIDI_send midiObj]
        \<and> get midiObj ''midiport'' = Str ''Synth''
        \<and> get midiObj ''midicommand'' = Str ''noteon''
        \<and> get midiObj ''channel'' = Str ''*''
        \<and> get midiObj ''note'' = Num 0
        \<and> get midiObj ''velocity'' = Undefined)"
  using runMIDITrigger_MIDI_fallback
    [of "[(''id'', Str ''trigger-9f8e7d6c''), (''midicommand'', Str ''noteon''), (''channel'', Str ''*''),
          (''note'', Num 60), (''actiontype'', Str ''midi''), (''outputport'', Str ''Synth''),
          (''outputnote'', Num 0)]"
        "[(''channel'', Num 3), (''raw'', Arr [0x93, 60, 100]), (''note'', Num 60), (''velocity'', Num 100)]"
        "[]"]
  by simp blast

section \<open>Trigger validation\<close>

lemma lookup_MIDI_LIMITS:
  "lookup MIDI_LIMITS ''channel'' = Own (0, 15, ''Channel'')"
  "lookup MIDI_LIMITS ''note'' = Own (0, 127, ''Note'')"
  by (simp_all add: lookup_def MIDI_LIMITS_def)

lemma push_error_channel:
  "length (push_error (validateMIDIValue ''channel'' v False)) = of_bool (\<not> in_range 0 15 v)"
  by (auto simp add: validateMIDIValue_def lookup_MIDI_LIMITS push_error_def in_range_def
      split: option.splits)

lemma push_error_note:
  "length (push_error (validateMIDIValue ''note'' v False)) = of_bool (\<not> in_range 0 127 v)"
  by (auto simp add: validateMIDIValue_def lookup_MIDI_LIMITS push_error_def in_range_def
      split: option.splits)

lemma finish_simps: "errors (finish es) = es" "(finish es = Valid) = (es = [])"
  by (auto simp add: finish_def)

lemma empty_not_valid: "[] \<notin> set VALID_MIDI_COMMANDS"
  by (simp add: VALID_MIDI_COMMANDS_def)

lemma falsy_actiontype: "\<not> truthy a \<Longrightarrow> a \<noteq> Str ''http'' \<and> a \<noteq> Str ''midi''"
  by auto

lemma command_lower:
  "(if truthy mc then toLowerCase mc else Inr []) = toLowerCase (or_else mc (Str []))"
  by (cases mc) (simp_all add: or_else_def)

lemma falsy_command: "\<not> truthy mc \<Longrightarrow> toLowerCase (or_else mc (Str [])) = Inr []"
  by (simp add: or_else_def)

text \<open>
  Claim C2, as amended. \<^verbatim>\<open>validateTriggerObject\<close> requires none of the per-command
  fields that \<^verbatim>\<open>validateMIDIObject\<close> requires. With \<^verbatim>\<open>command\<close> the lower-cased
  \<^verbatim>\<open>midicommand\<close> (the empty string when \<^verbatim>\<open>midicommand\<close> is missing or falsy), it makes
  six checks and returns one error for each check that fails, valid exactly when none
  fails: \<^verbatim>\<open>command\<close> is one of the eight commands (so \<^verbatim>\<open>midicommand\<close> is required); for
  noteon, noteoff, cc, pc, pressure and pitchbend the channel, when it is present and not
  \<^verbatim>\<open>'*'\<close>, reads (\<^verbatim>\<open>parseInt\<close>, radix 10) as an integer in [0,15]; for noteon and noteoff
  the note, when it is present and not \<^verbatim>\<open>'*'\<close>, reads as an integer in [0,127];
  \<^verbatim>\<open>actiontype\<close> is \<^verbatim>\<open>'http'\<close> or \<^verbatim>\<open>'midi'\<close>; an http trigger has a \<^verbatim>\<open>url\<close>; a midi
  trigger has an \<^verbatim>\<open>outputport\<close>. Velocity, controller and value are not looked at. A
  \<^verbatim>\<open>midicommand\<close> that is truthy and not a string makes the validator throw.
\<close>

theorem validateTriggerObject_checks:
  "(toLowerCase (or_else (get t ''midicommand'') (Str [])) = Inl TypeError \<longrightarrow>
      validateTriggerObject (Some t) = Inl TypeError)
   \<and> (toLowerCase (or_else (get t ''midicommand'') (Str [])) = Inr c \<longrightarrow>
      (\<exists>r. validateTriggerObject (Some t) = Inr r
         \<and> (r = Valid) = (errors r = [])
         \<and> length (errors r) =
              of_bool (c \<notin> set VALID_MIDI_COMMANDS)
            + of_bool (c \<in> set [''noteon'', ''noteoff'', ''cc'', ''pc'', ''pressure'', ''pitchbend'']
                       \<and> get t ''channel'' \<noteq> Undefined \<and> get t ''channel'' \<noteq> Str ''*''
                       \<and> \<not> in_range 0 15 (get t ''channel''))
            + of_bool (c \<in> set [''noteon'', ''noteoff'']
                       \<and> get t ''note'' \<noteq> Undefined \<and> get t ''note'' \<noteq> Str ''*''
                       \<and> \<not> in_range 0 127 (get t ''note''))
            + of_bool (get t ''actiontype'' \<noteq> Str ''http'' \<and> get t ''actiontype'' \<noteq> Str ''midi'')
            + of_bool (get t ''actiontype'' = Str ''http'' \<and> \<not> truthy (get t ''url''))
            + of_bool (get t ''actiontype'' = Str ''midi'' \<and> \<not> truthy (get t ''outputport''))
         \<and> (\<not> truthy (get t ''midicommand'') \<longrightarrow> ''midicommand is required'' \<in> set (errors r))
         \<and> (\<not> truthy (get t ''actiontype'') \<longrightarrow> ''actiontype is required'' \<in> set (errors r))
         \<and> (get t ''actiontype'' = Str ''http'' \<and> \<not> truthy (get t ''url'') \<longrightarrow>
              ''url is required for http action'' \<in> set (errors r))
         \<and> (get t ''actiontype'' = Str ''midi'' \<and> \<not> truthy (get t ''outputport'') \<longrightarrow>
              ''outputport is required for midi action'' \<in> set (errors r))))"
proof (intro conjI impI)
  assume "toLowerCase (or_else (get t ''midicommand'') (Str [])) = Inl TypeError"
  then show "validateTriggerObject (Some t) = Inl TypeError"
    by (simp add: validateTriggerObject_def command_lower)
next
  assume lc: "toLowerCase (or_else (get t ''midicommand'') (Str [])) = Inr c"
  let ?mc = "get t ''midicommand''"
  let ?A = "if \<not> truthy ?mc then [''midicommand is required'']
            else if c \<notin> set VALID_MIDI_COMMANDS then [''Invalid midicommand: '' @ toString ?mc]
            else []"
  let ?B = "if c \<in> set [''noteon'', ''noteoff'', ''cc'', ''pc'', ''pressure'', ''pitchbend'']
                    \<and> \<not> strict_eq (get t ''channel'') Undefined
                    \<and> \<not> strict_eq (get t ''channel'') (Str ''*'')
                then push_error (validateMIDIValue ''channel'' (get t ''channel'') False)
                else []"
  let ?C = "if c \<in> set [''noteon'', ''noteoff'']
                    \<and> \<not> strict_eq (get t ''note'') Undefined
                    \<and> \<not> strict_eq (get t ''note'') (Str ''*'')
                then push_error (validateMIDIValue ''note'' (get t ''note'') False)
                else []"
  let ?D = "if \<not> truthy (get t ''actiontype'') then [''actiontype is required'']
                else if \<not> (strict_eq (get t ''actiontype'') (Str ''http'')
                           \<or> strict_eq (get t ''actiontype'') (Str ''midi''))
                then [''Invalid actiontype: '' @ toString (get t ''actiontype'')
                      @ ''. Valid types: http, midi'']
                else []"
  let ?E = "if strict_eq (get t ''actiontype'') (Str ''http'') \<and> \<not> truthy (get t ''url'')
                then [''url is required for http action''] else []"
  let ?F = "if strict_eq (get t ''actiontype'') (Str ''midi'') \<and> \<not> truthy (get t ''outputport'')
                then [''outputport is required for midi action''] else []"
  have r: "validateTriggerObject (Some t) = Inr (finish (?A @ ?B @ ?C @ ?D @ ?E @ ?F))"
    by (simp only: validateTriggerObject_def command_lower lc option.case sum.case)
  have falsy: "c = []" if "\<not> truthy ?mc"
    using falsy_command [OF that] lc by simp
  have A: "length ?A = of_bool (c \<notin> set VALID_MIDI_COMMANDS)"
    using empty_not_valid falsy by (cases "truthy ?mc") (simp_all del: set_simps)
  have B: "length ?B = of_bool (c \<in> set [''noteon'', ''noteoff'', ''cc'', ''pc'', ''pressure'', ''pitchbend'']
                   \<and> get t ''channel'' \<noteq> Undefined \<and> get t ''channel'' \<noteq> Str ''*''
                   \<and> \<not> in_range 0 15 (get t ''channel''))"
    by (auto simp add: push_error_channel simp del: set_simps)
  have C: "length ?C = of_bool (c \<in> set [''noteon'', ''noteoff'']
                   \<and> get t ''note'' \<noteq> Undefined \<and> get t ''note'' \<noteq> Str ''*''
                   \<and> \<not> in_range 0 127 (get t ''note''))"
    by (auto simp add: push_error_note simp del: set_simps)
  have D: "length ?D
             = of_bool (get t ''actiontype'' \<noteq> Str ''http'' \<and> get t ''actiontype'' \<noteq> Str ''midi'')"
    using falsy_actiontype [of "get t ''actiontype''"] by simp
  have E: "length ?E = of_bool (get t ''actiontype'' = Str ''http'' \<and> \<not> truthy (get t ''url''))"
    by simp
  have F: "length ?F
             = of_bool (get t ''actiontype'' = Str ''midi'' \<and> \<not> truthy (get t ''outputport''))"
    by simp
  have len: "length (?A @ ?B @ ?C @ ?D @ ?E @ ?F)
               = length ?A + length ?B + length ?C + length ?D + length ?E + length ?F"
    by (simp only: length_append add.assoc)
  have mA: "''midicommand is required'' \<in> set ?A" if "\<not> truthy ?mc"
    using that by simp
  have mD: "''actiontype is required'' \<in> set ?D" if "\<not> truthy (get t ''actiontype'')"
    using that by simp
  have mE: "''url is required for http action'' \<in> set ?E"
    if "get t ''actiontype'' = Str ''http'' \<and> \<not> truthy (get t ''url'')"
    using that by simp
  have mF: "''outputport is required for midi action'' \<in> set ?F"
    if "get t ''actiontype'' = Str ''midi'' \<and> \<not> truthy (get t ''outputport'')"
    using that by simp
  have set_all: "set (errors (finish (?A @ ?B @ ?C @ ?D @ ?E @ ?F)))
                   = set ?A \<union> set ?B \<union> set ?C \<union> set ?D \<union> set ?E \<union> set ?F"
    by (simp only: finish_simps set_append Un_assoc)
  show "\<exists>r. validateTriggerObject (Some t) = Inr r
         \<and> (r = Valid) = (errors r = [])
         \<and> length (errors r) =
              of_bool (c \<notin> set VALID_MIDI_COMMANDS)
            + of_bool (c \<in> set [''noteon'', ''noteoff'', ''cc'', ''pc'', ''pressure'', ''pitchbend'']
                       \<and> get t ''channel'' \<noteq> Undefined \<and> get t ''channel'' \<noteq> Str ''*''
                       \<and> \<not> in_range 0 15 (get t ''channel''))
            + of_bool (c \<in> set [''noteon'', ''noteoff'']
                       \<and> get t ''note'' \<noteq> Undefined \<and> get t ''note'' \<noteq> Str ''*''
                       \<and> \<not> in_range 0 127 (get t ''note''))
            + of_bool (get t ''actiontype'' \<noteq> Str ''http'' \<and> get t ''actiontype'' \<noteq> Str ''midi'')
            + of_bool (get t ''actiontype'' = Str ''http'' \<and> \<not> truthy (get t ''url''))
            + of_bool (get t ''actiontype'' = Str ''midi'' \<and> \<not> truthy (get t ''outputport''))
         \<and> (\<not> truthy (get t ''midicommand'') \<longrightarrow> ''midicommand is required'' \<in> set (errors r))
         \<and> (\<not> truthy (get t ''actiontype'') \<longrightarrow> ''actiontype is required'' \<in> set (errors r))
         \<and> (get t ''actiontype'' = Str ''http'' \<and> \<not> truthy (get t ''url'') \<longrightarrow>
              ''url is required for http action'' \<in> set (errors r))
         \<and> (get t ''actiontype'' = Str ''midi'' \<and> \<not> truthy (get t ''outputport'') \<longrightarrow>
              ''outputport is required for midi action'' \<in> set (errors r))"
  proof (intro exI conjI impI)
    show "validateTriggerObject (Some t) = Inr (finish (?A @ ?B @ ?C @ ?D @ ?E @ ?F))"
      by (rule r)
    show "(finish (?A @ ?B @ ?C @ ?D @ ?E @ ?F) = Valid)
            = (errors (finish (?A @ ?B @ ?C @ ?D @ ?E @ ?F)) = [])"
      by (simp only: finish_simps)
    show "length (errors (finish (?A @ ?B @ ?C @ ?D @ ?E @ ?F))) =
              of_bool (c \<notin> set VALID_MIDI_COMMANDS)
            + of_bool (c \<in> set [''noteon'', ''noteoff'', ''cc'', ''pc'', ''pressure'', ''pitchbend'']
                       \<and> get t ''channel'' \<noteq> Undefined \<and> get t ''channel'' \<noteq> Str ''*''
                       \<and> \<not> in_range 0 15 (get t ''channel''))
            + of_bool (c \<in> set [''noteon'', ''noteoff'']
                       \<and> get t ''note'' \<noteq> Undefined \<and> get t ''note'' \<noteq> Str ''*''
                       \<and> \<not> in_range 0 127 (get t ''note''))
            + of_bool (get t ''actiontype'' \<noteq> Str ''http'' \<and> get t ''actiontype'' \<noteq> Str ''midi'')
            + of_bool (get t ''actiontype'' = Str ''http'' \<and> \<not> truthy (get t ''url''))
            + of_bool (get t ''actiontype'' = Str ''midi'' \<and> \<not> truthy (get t ''outputport''))"
      by (simp only: finish_simps len A B C D E F)
    show "''midicommand is required'' \<in> set (errors (finish (?A @ ?B @ ?C @ ?D @ ?E @ ?F)))"
      if "\<not> truthy ?mc"
      unfolding set_all using mA [OF that] by blast
    show "''actiontype is required'' \<in> set (errors (finish (?A @ ?B @ ?C @ ?D @ ?E @ ?F)))"
      if "\<not> truthy (get t ''actiontype'')"
      unfolding set_all using mD [OF that] by blast
    show "''url is required for http action'' \<in> set (errors (finish (?A @ ?B @ ?C @ ?D @ ?E @ ?F)))"
      if "get t ''actiontype'' = Str ''http'' \<and> \<not> truthy (get t ''url'')"
      unfolding set_all using mE [OF that] by blast
    show "''outputport is required for midi action''
            \<in> set (errors (finish (?A @ ?B @ ?C @ ?D @ ?E @ ?F)))"
      if "get t ''actiontype'' = Str ''midi'' \<and> \<not> truthy (get t ''outputport'')"
      unfolding set_all using mF [OF that] by blast
  qed
qed

theorem validateTriggerObject_checks_witness:
  "(\<exists>r. validateTriggerObject
           (Some [(''midicommand'', Str ''CC''), (''channel'', Num 16), (''controller'', Num 999),
                  (''actiontype'', Str ''midi'')]) = Inr r
        \<and> r \<noteq> Valid \<and> length (errors r) = 2
        \<and> ''outputport is required for midi action'' \<in> set (errors r))
   \<and> (\<exists>r. validateTriggerObject
           (Some [(''channel'', Num 0), (''note'', Num 60), (''actiontype'', Str ''http''),
                  (''url'', Str ''http://example.com/webhook'')]) = Inr r
        \<and> r \<noteq> Valid \<and> length (errors r) = 1 \<and> ''midicommand is required'' \<in> set (errors r))
   \<and> validateTriggerObject
        (Some [(''midicommand'', Num 5), (''actiontype'', Str ''http''),
               (''url'', Str ''http://example.com/webhook'')]) = Inl TypeError"
proof -
  have lc: "toLowerCase (or_else (Str ''CC'') (Str [])) = Inr ''cc''"
    by code_simp
  have v: "''cc'' \<in> set VALID_MIDI_COMMANDS"
    by (simp add: VALID_MIDI_COMMANDS_def)
  have ch: "\<not> in_range 0 15 (Num 16)"
    by (simp add: in_range_def)
  have a: "\<exists>r. validateTriggerObject
           (Some [(''midicommand'', Str ''CC''), (''channel'', Num 16), (''controller'', Num 999),
                  (''actiontype'', Str ''midi'')]) = Inr r
        \<and> r \<noteq> Valid \<and> length (errors r) = 2
        \<and> ''outputport is required for midi action'' \<in> set (errors r)"
    using validateTriggerObject_checks
      [where t = "[(''midicommand'', Str ''CC''), (''channel'', Num 16), (''controller'', Num 999),
            (''actiontype'', Str ''midi'')]" and c = "''cc''"]
    by (auto simp add: lc v ch)
  have b: "\<exists>r. validateTriggerObject
           (Some [(''channel'', Num 0), (''note'', Num 60), (''actiontype'', Str ''http''),
                  (''url'', Str ''http://example.com/webhook'')]) = Inr r
        \<and> r \<noteq> Valid \<and> length (errors r) = 1 \<and> ''midicommand is required'' \<in> set (errors r)"
    using validateTriggerObject_checks
      [where t = "[(''channel'', Num 0), (''note'', Num 60), (''actiontype'', Str ''http''),
                  (''url'', Str ''http://example.com/webhook'')]" and c = "[]"]
    by (auto simp add: or_else_def empty_not_valid)
  have c: "validateTriggerObject
        (Some [(''midicommand'', Num 5), (''actiontype'', Str ''http''),
               (''url'', Str ''http://example.com/webhook'')]) = Inl TypeError"
    using validateTriggerObject_checks
      [where t = "[(''midicommand'', Num 5), (''actiontype'', Str ''http''),
               (''url'', Str ''http://example.com/webhook'')]"]
    by (simp add: or_else_def)
  show ?thesis
    using a b c by simp
qed

text \<open>
  The claim as it was stated fails on a \<^verbatim>\<open>cc\<close> trigger without channel, controller and
  value: the trigger is valid, while \<^verbatim>\<open>validateMIDIObject\<close> requires all three of a
  \<^verbatim>\<open>cc\<close> request.
\<close>

theorem validateTriggerObject_counterexample:
  "validateTriggerObject
     (Some [(''midicommand'', Str ''cc''), (''actiontype'', Str ''http''),
            (''url'', Str ''http://localhost:5678/webhook'')]) = Inr Valid
   \<and> validateMIDIObject (Some [(''midicommand'', Str ''cc''), (''midiport'', Str ''Synth'')])
     = Inr (Invalid [''channel is required for cc'', ''controller is required for cc'',
                     ''value is required for cc''])"
  by (simp add: validateTriggerObject_def validateMIDIObject_def lower_char_def
      VALID_MIDI_COMMANDS_def finish_def missing_def)

section \<open>The activity log\<close>

lemma addToLog_log:
  "MIDIRelaysLog (addToLog now dir p c d st) =
     (let pushed = MIDIRelaysLog st
                   @ [\<lparr>timestamp = now, direction = dir, port = p, command = c, data = d\<rparr>]
      in if length pushed > 500 then tl pushed else pushed)"
  by (simp add: addToLog_def Let_def)

lemma addToLog_entry:
  "MIDIRelaysLog (addToLog (timestamp e) (direction e) (port e) (command e) (data e) st) =
     (if length (MIDIRelaysLog st) \<ge> 500 then tl (MIDIRelaysLog st @ [e])
      else MIDIRelaysLog st @ [e])"
  by (cases e) (simp add: addToLog_log Let_def)

lemma appends_log:
  "length (MIDIRelaysLog st) \<le> 500 \<Longrightarrow>
   MIDIRelaysLog (appends es st) =
     drop (length (MIDIRelaysLog st) + length es - 500) (MIDIRelaysLog st @ es)"
proof (induction es arbitrary: st)
  case Nil
  then show ?case by simp
next
  case (Cons e es)
  let ?L = "MIDIRelaysLog st"
  let ?st' = "addToLog (timestamp e) (direction e) (port e) (command e) (data e) st"
  show ?case
  proof (cases "length ?L = 500")
    case True
    then have ne: "?L \<noteq> []" by auto
    have L': "MIDIRelaysLog ?st' = tl ?L @ [e]"
      using True ne by (simp add: addToLog_entry)
    have len: "length (MIDIRelaysLog ?st') \<le> 500" using True L' by simp
    have "MIDIRelaysLog (appends (e # es) st) = drop (length es) (tl ?L @ e # es)"
      using Cons.IH [OF len] True L' by simp
    also have "tl ?L @ e # es = drop 1 (?L @ e # es)"
      using ne by (cases ?L) simp_all
    also have "drop (length es) (drop 1 (?L @ e # es))
                 = drop (length ?L + length (e # es) - 500) (?L @ e # es)"
      using True by (simp add: add.commute)
    finally show ?thesis .
  next
    case False
    with Cons.prems have lt: "length ?L < 500" by simp
    have L': "MIDIRelaysLog ?st' = ?L @ [e]"
      using lt by (simp add: addToLog_entry)
    have len: "length (MIDIRelaysLog ?st') \<le> 500" using lt L' by simp
    show ?thesis
      using Cons.IH [OF len] L' by simp
  qed
qed

text \<open>
  Claim C8. The log is a queue of at most 500 entries: starting from a log of at most 500
  entries, after any sequence of appends the log holds the last 500 of the old entries
  followed by the appended ones, so never more than 500; an append to a log of 500 entries
  drops exactly the first and puts the new entry last; and 501 appends to the empty log
  leave 500 entries, all but the first appended, the last appended being the last.
\<close>

theorem addToLog_ring_buffer:
  "length (MIDIRelaysLog st) \<le> 500 \<longrightarrow>
     length (MIDIRelaysLog (appends es st)) \<le> 500
   \<and> MIDIRelaysLog (appends es st) =
       drop (length (MIDIRelaysLog st @ es) - 500) (MIDIRelaysLog st @ es)
   \<and> (length (MIDIRelaysLog st) = 500 \<longrightarrow>
       MIDIRelaysLog (addToLog now dir p c d st) =
         tl (MIDIRelaysLog st)
         @ [\<lparr>timestamp = now, direction = dir, port = p, command = c, data = d\<rparr>])
   \<and> (MIDIRelaysLog st = [] \<and> length es = 501 \<longrightarrow>
       length (MIDIRelaysLog (appends es st)) = 500
       \<and> MIDIRelaysLog (appends es st) = tl es
       \<and> last (MIDIRelaysLog (appends es st)) = last es)"
proof (intro impI conjI)
  assume le: "length (MIDIRelaysLog st) \<le> 500"
  show eq: "MIDIRelaysLog (appends es st) =
       drop (length (MIDIRelaysLog st @ es) - 500) (MIDIRelaysLog st @ es)"
    using appends_log [OF le] by simp
  show "length (MIDIRelaysLog (appends es st)) \<le> 500"
    using le by (simp add: eq)
  {
    assume full: "length (MIDIRelaysLog st) = 500"
    then have "MIDIRelaysLog st \<noteq> []" by auto
    then show "MIDIRelaysLog (addToLog now dir p c d st) =
         tl (MIDIRelaysLog st)
         @ [\<lparr>timestamp = now, direction = dir, port = p, command = c, data = d\<rparr>]"
      using full by (simp add: addToLog_log)
  }
  {
    assume a: "MIDIRelaysLog st = [] \<and> length es = 501"
    then have es: "MIDIRelaysLog (appends es st) = drop 1 es"
      using eq by simp
    show "MIDIRelaysLog (appends es st) = tl es"
      using es by (simp add: drop_Suc)
    show "length (MIDIRelaysLog (appends es st)) = 500"
      using es a by simp
    show "last (MIDIRelaysLog (appends es st)) = last es"
      using es a by (simp add: last_drop)
  }
qed

theorem addToLog_ring_buffer_witness:
  "length (MIDIRelaysLog \<lparr>MIDIRelaysLog = [] :: nat logEntry list, sendLog = False, published = []\<rparr>) \<le> 500
   \<and> length (map (\<lambda>n. \<lparr>timestamp = [], direction = ''RX'', port = Str ''in'',
                        command = Str ''noteon'', data = n\<rparr>) [0..<501]) = 501
   \<and> MIDIRelaysLog
       (appends (map (\<lambda>n. \<lparr>timestamp = [], direction = ''RX'', port = Str ''in'',
                           command = Str ''noteon'', data = n\<rparr>) [0..<501])
          \<lparr>MIDIRelaysLog = [], sendLog = False, published = []\<rparr>)
     = tl (map (\<lambda>n. \<lparr>timestamp = [], direction = ''RX'', port = Str ''in'',
                      command = Str ''noteon'', data = n\<rparr>) [0..<501])"
  using addToLog_ring_buffer
    [of "\<lparr>MIDIRelaysLog = [] :: nat logEntry list, sendLog = False, published = []\<rparr>"
        "map (\<lambda>n. \<lparr>timestamp = [], direction = ''RX'', port = Str ''in'',
                   command = Str ''noteon'', data = n\<rparr>) [0..<501]"]
  by (simp del: upt_Suc add: drop_Suc)

end
